theory Spec2Isabelle
  imports Main
begin

section \<open>Types of the grid game (\<open>gridgame/project_types\<close>)\<close>

text \<open>
  Modelled from the spec: the types \<open>PlayerId\<close>, \<open>Symbol\<close>, \<open>Cell\<close> and \<open>Feedback\<close> that
  \<open>model.py\<close> imports from \<open>project_types\<close>. A player id is a Python integer, a
  symbol is a string, a cell is a pair of a row and a column (\<open>Cell(row, column)\<close>), and
  \<open>Feedback\<close> is the enumeration of the results of a placement.
\<close>

type_synonym PlayerId = int

type_synonym Symbol = string

datatype Cell = Cell (row: int) (column: int)

datatype Feedback = VALID | GAME_OVER | INVALID_SYMBOL | OUT_OF_BOUNDS | OCCUPIED

text \<open>The exceptions the code can raise, as values.\<close>

datatype error = ValueError | NotImplementedError | IndexError | KeyError

subsection \<open>The board\<close>

text \<open>
  Modelled from the spec: the class \<open>Field\<close> of \<open>project_types\<close>, the board that
  \<open>model.py\<close> only uses. It is the \<open>grid_size \<times> grid_size\<close> board that maps occupied
  cells to symbols and exposes the coordinate range \<open>1..grid_size\<close>, with bounds checking,
  symbol lookup and placement, a test for a free cell, and the test that all cells of a
  group equal a given symbol.
\<close>

record Field =
  grid_size :: int
  occupied_cells :: "Cell \<rightharpoonup> Symbol"

definition Field_init :: "int \<Rightarrow> Field" where
  \<comment> \<open>Modelled from the spec: \<open>Field(grid_size)\<close>, an empty board.\<close>
  "Field_init g = \<lparr>grid_size = g, occupied_cells = Map.empty\<rparr>"

definition valid_coords :: "Field \<Rightarrow> int list" where
  \<comment> \<open>Modelled from the spec: the ordered index range \<open>1..grid_size\<close>.\<close>
  "valid_coords f = [1..grid_size f]"

definition is_within_bounds :: "Field \<Rightarrow> Cell \<Rightarrow> bool" where
  \<comment> \<open>Modelled from the spec: the cell lies in \<open>1..grid_size\<close> on both axes.\<close>
  "is_within_bounds f c \<longleftrightarrow>
     1 \<le> row c \<and> row c \<le> grid_size f \<and> 1 \<le> column c \<and> column c \<le> grid_size f"

definition get_symbol_at :: "Field \<Rightarrow> Cell \<Rightarrow> Symbol option" where
  \<comment> \<open>Modelled from the spec: the symbol at a cell, absent for a free cell.\<close>
  "get_symbol_at f c = occupied_cells f c"

definition Field_place_symbol :: "Field \<Rightarrow> Symbol \<Rightarrow> Cell \<Rightarrow> Field" where
  \<comment> \<open>Modelled from the spec: the mutator \<open>Field.place_symbol(symbol, cell)\<close>.\<close>
  "Field_place_symbol f s c = f\<lparr>occupied_cells := (occupied_cells f)(c \<mapsto> s)\<rparr>"

definition has_unoccupied_cell :: "Field \<Rightarrow> bool" where
  \<comment> \<open>Modelled from the spec: some cell of the grid holds no symbol.\<close>
  "has_unoccupied_cell f \<longleftrightarrow>
     list_ex (\<lambda>r. list_ex (\<lambda>k. get_symbol_at f (Cell r k) = None) (valid_coords f))
       (valid_coords f)"

definition are_all_equal_to_basis :: "Field \<Rightarrow> Symbol \<Rightarrow> Cell list \<Rightarrow> bool" where
  \<comment> \<open>Modelled from the spec: all cells of the group equal the given symbol.\<close>
  "are_all_equal_to_basis f basis grp \<longleftrightarrow>
     list_all (\<lambda>c. get_symbol_at f c = Some basis) grp"

section \<open>Rule strategies (\<open>GameType\<close> and its subclasses)\<close>

datatype GameType = TicTacToeGameType | WildTicTacToeGameType | NotaktoGameType

subsection \<open>Placement\<close>

text \<open>
  \<open>place_symbol\<close> mutates the field it is given; the model returns the feedback together
  with the field after the call.
\<close>

definition TicTacToe_place_symbol ::
  "Symbol \<Rightarrow> Cell \<Rightarrow> bool \<Rightarrow> Symbol list \<Rightarrow> Field \<Rightarrow> Feedback \<times> Field" where
  "TicTacToe_place_symbol symbol cell is_over symbol_choices f =
     (if is_over then (GAME_OVER, f)
      else if symbol \<notin> set symbol_choices then (INVALID_SYMBOL, f)
      else if \<not> is_within_bounds f cell then (OUT_OF_BOUNDS, f)
      else if get_symbol_at f cell \<noteq> None then (OCCUPIED, f)
      else (VALID, Field_place_symbol f symbol cell))"

definition Wild_place_symbol ::
  "Symbol \<Rightarrow> Cell \<Rightarrow> bool \<Rightarrow> Symbol list \<Rightarrow> Field \<Rightarrow> Feedback \<times> Field" where
  "Wild_place_symbol symbol cell is_over symbol_choices f =
     (if is_over then (GAME_OVER, f)
      else if symbol \<notin> set symbol_choices then (INVALID_SYMBOL, f)
      else if \<not> is_within_bounds f cell then (OUT_OF_BOUNDS, f)
      else if get_symbol_at f cell \<noteq> None then (OCCUPIED, f)
      else (VALID, Field_place_symbol f symbol cell))"

definition Notakto_place_symbol ::
  "Symbol \<Rightarrow> Cell \<Rightarrow> bool \<Rightarrow> Symbol list \<Rightarrow> Field \<Rightarrow> error + Feedback \<times> Field" where
  "Notakto_place_symbol symbol cell is_over symbol_choices f = Inl NotImplementedError"

text \<open>Dynamic dispatch on the class of the strategy object.\<close>

definition GameType_place_symbol ::
  "GameType \<Rightarrow> Symbol \<Rightarrow> Cell \<Rightarrow> bool \<Rightarrow> Symbol list \<Rightarrow> Field \<Rightarrow> error + Feedback \<times> Field" where
  "GameType_place_symbol gt symbol cell is_over symbol_choices f =
     (case gt of
        TicTacToeGameType \<Rightarrow> Inr (TicTacToe_place_symbol symbol cell is_over symbol_choices f)
      | WildTicTacToeGameType \<Rightarrow> Inr (Wild_place_symbol symbol cell is_over symbol_choices f)
      | NotaktoGameType \<Rightarrow> Notakto_place_symbol symbol cell is_over symbol_choices f)"

subsection \<open>Win detection\<close>

definition row_groups :: "Field \<Rightarrow> Cell list list" where
  "row_groups f = map (\<lambda>r. map (\<lambda>k. Cell r k) (valid_coords f)) (valid_coords f)"

definition col_groups :: "Field \<Rightarrow> Cell list list" where
  "col_groups f = map (\<lambda>col. map (\<lambda>k. Cell k col) (valid_coords f)) (valid_coords f)"

definition diagonals :: "Field \<Rightarrow> Cell list list" where
  "diagonals f =
     [map (\<lambda>k. Cell k k) (valid_coords f),
      map (\<lambda>k. Cell k (grid_size f - k + 1)) (valid_coords f)]"

text \<open>
  The inner loop \<open>for group in groups\<close>: \<open>group[0]\<close> raises \<open>IndexError\<close> on an empty
  group; \<open>Inr None\<close> means that the loop ended without returning.
\<close>

fun scan_groups :: "Field \<Rightarrow> PlayerId \<Rightarrow> Cell list list \<Rightarrow> error + PlayerId option" where
  "scan_groups f player [] = Inr None"
| "scan_groups f player (grp # rest) =
     (case grp of
        [] \<Rightarrow> Inl IndexError
      | c0 # _ \<Rightarrow>
          (case get_symbol_at f c0 of
             None \<Rightarrow> scan_groups f player rest
           | Some basis \<Rightarrow>
               if are_all_equal_to_basis f basis grp then Inr (Some player)
               else scan_groups f player rest))"

text \<open>The outer loop \<open>for groups in [row_groups, col_groups, diagonals]\<close>.\<close>

fun scan_families :: "Field \<Rightarrow> PlayerId \<Rightarrow> Cell list list list \<Rightarrow> error + PlayerId option" where
  "scan_families f player [] = Inr None"
| "scan_families f player (groups # rest) =
     (case scan_groups f player groups of
        Inr None \<Rightarrow> scan_families f player rest
      | r \<Rightarrow> r)"

definition TicTacToe_winner :: "Field \<Rightarrow> PlayerId \<Rightarrow> Symbol \<Rightarrow> error + PlayerId option" where
  "TicTacToe_winner f player symbol =
     scan_families f player [row_groups f, col_groups f, diagonals f]"

definition Wild_winner :: "Field \<Rightarrow> PlayerId \<Rightarrow> Symbol \<Rightarrow> error + PlayerId option" where
  \<comment> \<open>The method ends without \<open>return\<close> after the loops: Python returns \<open>None\<close>.\<close>
  "Wild_winner f player symbol =
     scan_families f player [row_groups f, col_groups f, diagonals f]"

definition Notakto_winner :: "Field \<Rightarrow> PlayerId \<Rightarrow> Symbol \<Rightarrow> error + PlayerId option" where
  "Notakto_winner f player symbol = Inl NotImplementedError"

definition GameType_winner ::
  "GameType \<Rightarrow> Field \<Rightarrow> PlayerId \<Rightarrow> Symbol \<Rightarrow> error + PlayerId option" where
  "GameType_winner gt f player symbol =
     (case gt of
        TicTacToeGameType \<Rightarrow> TicTacToe_winner f player symbol
      | WildTicTacToeGameType \<Rightarrow> Wild_winner f player symbol
      | NotaktoGameType \<Rightarrow> Notakto_winner f player symbol)"

subsection \<open>Symbol choices\<close>

text \<open>
  The dictionary \<open>player_to_symbol\<close> is an association list with distinct keys in
  insertion order, so that \<open>values()\<close> keeps its order.
\<close>

definition TicTacToe_get_symbol_choices ::
  "PlayerId \<Rightarrow> (PlayerId \<times> Symbol) list \<Rightarrow> error + Symbol list" where
  "TicTacToe_get_symbol_choices player p2s =
     (case map_of p2s player of
        None \<Rightarrow> Inl ValueError
      | Some s \<Rightarrow> Inr [s])"

definition Wild_get_symbol_choices ::
  "PlayerId \<Rightarrow> (PlayerId \<times> Symbol) list \<Rightarrow> error + Symbol list" where
  "Wild_get_symbol_choices player p2s =
     (case map_of p2s player of
        None \<Rightarrow> Inl ValueError
      | Some _ \<Rightarrow> Inr (map snd p2s))"

definition Notakto_get_symbol_choices ::
  "PlayerId \<Rightarrow> (PlayerId \<times> Symbol) list \<Rightarrow> error + Symbol list" where
  "Notakto_get_symbol_choices player p2s = Inl NotImplementedError"

definition GameType_get_symbol_choices ::
  "GameType \<Rightarrow> PlayerId \<Rightarrow> (PlayerId \<times> Symbol) list \<Rightarrow> error + Symbol list" where
  "GameType_get_symbol_choices gt player p2s =
     (case gt of
        TicTacToeGameType \<Rightarrow> TicTacToe_get_symbol_choices player p2s
      | WildTicTacToeGameType \<Rightarrow> Wild_get_symbol_choices player p2s
      | NotaktoGameType \<Rightarrow> Notakto_get_symbol_choices player p2s)"

section \<open>The match orchestrator (\<open>GridGameModel\<close>)\<close>

record GridGameModel =
  valid_symbols :: "Symbol list"
  game_type :: GameType
  field :: Field
  player_count :: int
  player_to_symbol :: "(PlayerId \<times> Symbol) list"
  symbol_to_player :: "(Symbol \<times> PlayerId) list"
  current_player :: PlayerId

text \<open>\<open>enumerate(xs, start=k)\<close>.\<close>

primrec enumerate_from :: "int \<Rightarrow> 'a list \<Rightarrow> (int \<times> 'a) list" where
  "enumerate_from k [] = []"
| "enumerate_from k (x # xs) = (k, x) # enumerate_from (k + 1) xs"

definition init :: "int \<Rightarrow> Symbol list \<Rightarrow> int \<Rightarrow> GameType \<Rightarrow> error + GridGameModel" where
  "init g player_symbols count gt =
     (if count \<le> 1 then Inl ValueError
      else if length (remdups player_symbols) \<noteq> length player_symbols then Inl ValueError
      else if int (length player_symbols) \<noteq> count then Inl ValueError
      else Inr \<lparr>valid_symbols = player_symbols,
                game_type = gt,
                field = Field_init g,
                player_count = count,
                player_to_symbol = enumerate_from 1 player_symbols,
                symbol_to_player = map (\<lambda>(k, s). (s, k)) (enumerate_from 1 player_symbols),
                current_player = 1\<rparr>)"

definition model_occupied_cells :: "GridGameModel \<Rightarrow> Cell \<rightharpoonup> Symbol" where
  "model_occupied_cells m = occupied_cells (field m)"

definition model_grid_size :: "GridGameModel \<Rightarrow> int" where
  "model_grid_size m = grid_size (field m)"

definition next_player :: "GridGameModel \<Rightarrow> PlayerId" where
  "next_player m =
     (if current_player m \<noteq> player_count m then current_player m + 1 else 1)"

definition winner :: "GridGameModel \<Rightarrow> error + PlayerId option" where
  \<comment> \<open>\<open>self._player_to_symbol[self._current_player]\<close> raises \<open>KeyError\<close> on a missing key.\<close>
  "winner m =
     (case map_of (player_to_symbol m) (current_player m) of
        None \<Rightarrow> Inl KeyError
      | Some s \<Rightarrow> GameType_winner (game_type m) (field m) (current_player m) s)"

definition is_game_over :: "GridGameModel \<Rightarrow> error + bool" where
  "is_game_over m =
     (case winner m of
        Inl e \<Rightarrow> Inl e
      | Inr (Some _) \<Rightarrow> Inr True
      | Inr None \<Rightarrow> Inr (\<not> has_unoccupied_cell (field m)))"

definition get_symbol_choices :: "GridGameModel \<Rightarrow> PlayerId \<Rightarrow> error + Symbol list" where
  "get_symbol_choices m player =
     GameType_get_symbol_choices (game_type m) player (player_to_symbol m)"

definition switch_to_next_player :: "GridGameModel \<Rightarrow> GridGameModel" where
  "switch_to_next_player m = m\<lparr>current_player := next_player m\<rparr>"

text \<open>
  \<open>place_symbol\<close> returns the feedback, or the exception that left the method, together
  with the state of the model after the call.
\<close>

definition place_symbol ::
  "GridGameModel \<Rightarrow> Symbol \<Rightarrow> Cell \<Rightarrow> (error + Feedback) \<times> GridGameModel" where
  "place_symbol m symbol cell =
     (case is_game_over m of
        Inl e \<Rightarrow> (Inl e, m)
      | Inr is_over \<Rightarrow>
          (case GameType_place_symbol (game_type m) symbol cell is_over
                  (valid_symbols m) (field m) of
             Inl e \<Rightarrow> (Inl e, m)
           | Inr (feedback, f') \<Rightarrow>
               (let m1 = m\<lparr>field := f'\<rparr> in
                if feedback = VALID then
                  (case is_game_over m1 of
                     Inl e \<Rightarrow> (Inl e, m1)
                   | Inr over_now \<Rightarrow>
                       if \<not> over_now then (Inr feedback, switch_to_next_player m1)
                       else (Inr feedback, m1))
                else (Inr feedback, m1))))"

text \<open>A match: successive \<open>place_symbol\<close> calls on one model, whatever each call returns.\<close>

fun play :: "GridGameModel \<Rightarrow> (Symbol \<times> Cell) list \<Rightarrow> GridGameModel" where
  "play m [] = m"
| "play m ((s, c) # moves) = play (snd (place_symbol m s c)) moves"

section \<open>Notions used by the properties\<close>

text \<open>
  What holds of the model in every state of a match: the roster has at least two seats,
  the player to move is one of them, and the player dictionary is the enumeration of the
  symbol sequence from 1.
\<close>

definition model_inv :: "GridGameModel \<Rightarrow> bool" where
  "model_inv m \<longleftrightarrow>
     2 \<le> player_count m \<and> 1 \<le> current_player m \<and> current_player m \<le> player_count m
     \<and> int (length (valid_symbols m)) = player_count m
     \<and> player_to_symbol m = enumerate_from 1 (valid_symbols m)"

text \<open>
  A line is matched when its first cell is occupied and all of its cells hold a symbol
  equal to the one in the first cell.
\<close>

definition line_matched :: "Field \<Rightarrow> Cell list \<Rightarrow> bool" where
  "line_matched f line \<longleftrightarrow>
     line \<noteq> [] \<and> get_symbol_at f (hd line) \<noteq> None
     \<and> list_all (\<lambda>c. get_symbol_at f c = get_symbol_at f (hd line)) line"

text \<open>The lines in the order in which \<open>winner\<close> visits them.\<close>

definition all_lines :: "Field \<Rightarrow> Cell list list" where
  "all_lines f = row_groups f @ col_groups f @ diagonals f"

subsection \<open>Example matches\<close>

text \<open>A 3 by 3 match of two players with the symbols X and O, under Classic and Wild rules.\<close>

definition classic_start :: GridGameModel where
  "classic_start =
     \<lparr>valid_symbols = [''X'', ''O''], game_type = TicTacToeGameType, field = Field_init 3,
      player_count = 2, player_to_symbol = [(1, ''X''), (2, ''O'')],
      symbol_to_player = [(''X'', 1), (''O'', 2)], current_player = 1\<rparr>"

definition wild_start :: GridGameModel where
  "wild_start = classic_start\<lparr>game_type := WildTicTacToeGameType\<rparr>"

text \<open>
  A Wild match in which player 1, whose assigned symbol is X, completes the first row
  with the symbol O.
\<close>

definition wild_row_of_O :: GridGameModel where
  "wild_row_of_O =
     play wild_start [(''O'', Cell 1 1), (''O'', Cell 1 2), (''O'', Cell 1 3)]"

text \<open>
  A Classic match in which player 1 completes the forward-slash diagonal with X, while
  the first cell of the second column stays free.
\<close>

definition classic_diagonal :: GridGameModel where
  "classic_diagonal =
     play classic_start
       [(''X'', Cell 2 2), (''O'', Cell 1 1), (''X'', Cell 1 3), (''O'', Cell 2 1),
        (''X'', Cell 3 1)]"

text \<open>
  A Classic match that ends in a draw: after eight moves no line is complete, and the
  ninth move, X at (3, 3), fills the last free cell without completing a line.
\<close>

definition classic_draw_moves :: "(Symbol \<times> Cell) list" where
  "classic_draw_moves =
     [(''X'', Cell 1 1), (''O'', Cell 1 2), (''X'', Cell 1 3), (''O'', Cell 2 2),
      (''X'', Cell 2 1), (''O'', Cell 2 3), (''X'', Cell 3 2), (''O'', Cell 3 1)]"

definition classic_draw :: GridGameModel where
  "classic_draw = play classic_start (classic_draw_moves @ [(''X'', Cell 3 3)])"

section \<open>Auxiliary facts\<close>

lemma init_classic_start: "init 3 [''X'', ''O''] 2 TicTacToeGameType = Inr classic_start"
  by (simp add: init_def classic_start_def)

lemma init_wild_start: "init 3 [''X'', ''O''] 2 WildTicTacToeGameType = Inr wild_start"
  by (simp add: init_def classic_start_def wild_start_def)

subsection \<open>The player dictionary\<close>

lemma map_of_enumerate_from:
  "map_of (enumerate_from k xs) p =
     (if k \<le> p \<and> p < k + int (length xs) then Some (xs ! nat (p - k)) else None)"
proof (induction xs arbitrary: k)
  case Nil
  then show ?case by simp
next
  case (Cons x xs)
  show ?case
  proof (cases "p = k")
    case True
    then show ?thesis by simp
  next
    case False
    then have "nat (p - k) = Suc (nat (p - (k + 1)))" if "k \<le> p"
      using that by linarith
    with False show ?thesis
      by (auto simp: Cons.IH)
  qed
qed

lemma map_snd_enumerate_from: "map snd (enumerate_from k xs) = xs"
  by (induction xs arbitrary: k) simp_all

subsection \<open>The invariant of a match\<close>

lemma init_inv: "init g ps count gt = Inr m \<Longrightarrow> model_inv m"
  by (auto simp: init_def model_inv_def split: if_splits)

lemma init_fields:
  "init g ps count gt = Inr m \<Longrightarrow>
     valid_symbols m = ps \<and> player_count m = count \<and> game_type m = gt"
  by (auto simp: init_def split: if_splits)

text \<open>A call changes the field and, at most, moves the turn to the next player.\<close>

lemma place_symbol_shape:
  "\<exists>f'. snd (place_symbol m s c) = m\<lparr>field := f'\<rparr>
      \<or> snd (place_symbol m s c) = m\<lparr>field := f', current_player := next_player m\<rparr>"
proof -
  have *: "m = m\<lparr>field := field m\<rparr>" by simp
  show ?thesis
    unfolding place_symbol_def Let_def switch_to_next_player_def next_player_def
    by (auto split: sum.splits prod.splits if_splits intro: exI[of _ "field m"])
qed

lemma next_player_range:
  "model_inv m \<Longrightarrow> 1 \<le> next_player m \<and> next_player m \<le> player_count m"
  by (auto simp: model_inv_def next_player_def)

lemma place_symbol_inv: "model_inv m \<Longrightarrow> model_inv (snd (place_symbol m s c))"
  using place_symbol_shape[of m s c] next_player_range[of m]
  by (auto simp: model_inv_def)

lemma place_symbol_fixed:
  "valid_symbols (snd (place_symbol m s c)) = valid_symbols m
   \<and> player_count (snd (place_symbol m s c)) = player_count m
   \<and> game_type (snd (place_symbol m s c)) = game_type m"
  using place_symbol_shape[of m s c] by auto

lemma play_inv: "model_inv m \<Longrightarrow> model_inv (play m moves)"
  by (induction m moves rule: play.induct) (simp_all add: place_symbol_inv)

lemma play_fixed:
  "valid_symbols (play m moves) = valid_symbols m
   \<and> player_count (play m moves) = player_count m
   \<and> game_type (play m moves) = game_type m"
  by (induction m moves rule: play.induct) (simp_all add: place_symbol_fixed)

lemma inv_known_player:
  "model_inv m \<Longrightarrow> 1 \<le> p \<Longrightarrow> p \<le> player_count m \<Longrightarrow> map_of (player_to_symbol m) p \<noteq> None"
  by (simp add: model_inv_def map_of_enumerate_from)

subsection \<open>The scan of the lines\<close>

lemma scan_groups_find:
  "[] \<notin> set groups \<Longrightarrow>
     scan_groups f player groups =
       Inr (case find (line_matched f) groups of None \<Rightarrow> None | Some _ \<Rightarrow> Some player)"
proof (induction groups)
  case Nil
  then show ?case by simp
next
  case (Cons grp rest)
  then obtain c0 cs where grp: "grp = c0 # cs"
    by (cases grp) auto
  from Cons have IH: "scan_groups f player rest =
      Inr (case find (line_matched f) rest of None \<Rightarrow> None | Some _ \<Rightarrow> Some player)"
    by simp
  have lm: "line_matched f (c0 # cs) \<longleftrightarrow>
      (case get_symbol_at f c0 of None \<Rightarrow> False
       | Some basis \<Rightarrow> are_all_equal_to_basis f basis (c0 # cs))"
    by (auto simp: line_matched_def are_all_equal_to_basis_def split: option.splits)
  show ?case
    by (cases "get_symbol_at f c0") (simp_all add: grp IH lm)
qed

text \<open>The two nested loops visit the groups of all families in one sequence.\<close>

lemma scan_families_concat:
  "scan_families f player fams = scan_groups f player (concat fams)"
proof (induction fams)
  case Nil
  then show ?case by simp
next
  case (Cons groups rest)
  have "scan_groups f player (groups @ gs) =
          (case scan_groups f player groups of Inr None \<Rightarrow> scan_groups f player gs | r \<Rightarrow> r)" for gs
    by (induction groups) (auto split: list.splits option.splits sum.splits)
  with Cons show ?case by (simp split: sum.splits option.splits)
qed

lemma valid_coords_nonempty: "1 \<le> grid_size f \<Longrightarrow> valid_coords f \<noteq> []"
  by (simp add: valid_coords_def upto.simps)

lemma all_lines_nonempty: "1 \<le> grid_size f \<Longrightarrow> [] \<notin> set (all_lines f)"
  using valid_coords_nonempty[of f]
  by (auto simp: all_lines_def row_groups_def col_groups_def diagonals_def)

lemma scan_all_lines:
  "1 \<le> grid_size f \<Longrightarrow>
     scan_families f player [row_groups f, col_groups f, diagonals f] =
       Inr (case find (line_matched f) (all_lines f) of None \<Rightarrow> None | Some _ \<Rightarrow> Some player)"
  using scan_groups_find[where groups = "all_lines f" and f = f and player = player]
    all_lines_nonempty[of f]
  by (simp add: scan_families_concat all_lines_def)

text \<open>
  On a board without coordinates the diagonals are empty groups, and reading their first
  cell raises \<open>IndexError\<close>: the scan is meaningful from grid size 1 on.
\<close>

lemma winner_empty_grid:
  "grid_size f \<le> 0 \<Longrightarrow> TicTacToe_winner f player symbol = Inl IndexError"
  by (simp add: TicTacToe_winner_def row_groups_def col_groups_def diagonals_def
       valid_coords_def)

text \<open>Whether the scan finds a line does not depend on the player or the symbol passed.\<close>

lemma scan_groups_player:
  "scan_groups f p groups = map_sum id (map_option (\<lambda>_. p)) (scan_groups f q groups)"
  by (induction groups) (auto split: list.splits option.splits)

lemma GameType_winner_player:
  "GameType_winner gt f p s = map_sum id (map_option (\<lambda>_. p)) (GameType_winner gt f q s')"
  by (cases gt)
     (simp_all add: GameType_winner_def TicTacToe_winner_def Wild_winner_def Notakto_winner_def
        scan_families_concat scan_groups_player[of f p _ q])

lemma is_game_over_switch:
  assumes "map_of (player_to_symbol m) (current_player m) \<noteq> None"
    and "map_of (player_to_symbol m) q \<noteq> None"
  shows "is_game_over (m\<lparr>current_player := q\<rparr>) = is_game_over m"
proof -
  from assms obtain s s' where
    s: "map_of (player_to_symbol m) (current_player m) = Some s"
    and s': "map_of (player_to_symbol m) q = Some s'"
    by auto
  show ?thesis
    using GameType_winner_player[of "game_type m" "field m" q s' "current_player m" s]
    by (cases "GameType_winner (game_type m) (field m) (current_player m) s")
       (auto simp: is_game_over_def winner_def s s' split: option.splits)
qed

subsection \<open>Placement\<close>

lemma strategy_reject_keeps_field:
  "GameType_place_symbol gt symbol cell is_over allowed f = Inr (fb, f') \<Longrightarrow> fb \<noteq> VALID \<Longrightarrow> f' = f"
  by (cases gt)
     (auto simp: GameType_place_symbol_def TicTacToe_place_symbol_def Wild_place_symbol_def
        Notakto_place_symbol_def split: if_splits)

lemma place_symbol_valid_cases:
  assumes "place_symbol m s c = (Inr VALID, m')"
  shows "\<exists>f'. (is_game_over (m\<lparr>field := f'\<rparr>) = Inr True \<and> m' = m\<lparr>field := f'\<rparr>)
            \<or> (is_game_over (m\<lparr>field := f'\<rparr>) = Inr False
                \<and> m' = m\<lparr>field := f', current_player := next_player m\<rparr>)"
  using assms
  unfolding place_symbol_def Let_def switch_to_next_player_def next_player_def
  by (auto split: sum.splits prod.splits if_splits)

subsection \<open>The end of the game and the turn\<close>

text \<open>A winner reported by the orchestrator is the player to move.\<close>

lemma winner_is_current: "winner m = Inr (Some w) \<Longrightarrow> w = current_player m"
proof -
  assume w: "winner m = Inr (Some w)"
  then obtain s where s: "map_of (player_to_symbol m) (current_player m) = Some s"
    and g: "GameType_winner (game_type m) (field m) (current_player m) s = Inr (Some w)"
    by (auto simp: winner_def split: option.splits)
  from GameType_winner_player[of "game_type m" "field m" "current_player m" s "current_player m" s] g
  show ?thesis by simp
qed

text \<open>No free cell, cell by cell over the coordinates of the grid.\<close>

lemma has_unoccupied_cell_spelled:
  "\<not> has_unoccupied_cell f \<longleftrightarrow>
     list_all (\<lambda>r. list_all (\<lambda>k. occupied_cells f (Cell r k) \<noteq> None) [1..grid_size f])
       [1..grid_size f]"
  by (simp add: has_unoccupied_cell_def valid_coords_def get_symbol_at_def
        list_ex_iff list_all_iff)

lemma is_game_over_value:
  "is_game_over m = Inr b \<Longrightarrow>
     (winner m = Inr None \<or> winner m = Inr (Some (current_player m)))
     \<and> b = (winner m \<noteq> Inr None \<or> \<not> has_unoccupied_cell (field m))"
  using winner_is_current[of m]
  by (auto simp: is_game_over_def split: sum.splits option.splits)

lemma valid_placement_cases:
  assumes "model_inv m" and "place_symbol m s c = (Inr VALID, m')"
  shows "(is_game_over m' = Inr False \<and> current_player m' = next_player m)
       \<or> (is_game_over m' = Inr True \<and> current_player m' = current_player m)"
proof -
  from place_symbol_valid_cases[OF assms(2)] obtain f' where
    cases: "(is_game_over (m\<lparr>field := f'\<rparr>) = Inr True \<and> m' = m\<lparr>field := f'\<rparr>)
          \<or> (is_game_over (m\<lparr>field := f'\<rparr>) = Inr False
              \<and> m' = m\<lparr>field := f', current_player := next_player m\<rparr>)"
    by blast
  have inv1: "model_inv (m\<lparr>field := f'\<rparr>)"
    using assms(1) by (simp add: model_inv_def)
  have "is_game_over (m\<lparr>field := f', current_player := next_player m\<rparr>)
          = is_game_over (m\<lparr>field := f'\<rparr>)"
    using is_game_over_switch[of "m\<lparr>field := f'\<rparr>" "next_player m"]
      inv_known_player[OF inv1, of "current_player m"]
      inv_known_player[OF inv1, of "next_player m"]
      next_player_range[OF assms(1)] assms(1)
    by (simp add: model_inv_def)
  with cases show ?thesis by auto
qed

lemma play_snoc: "play m (ms @ [(s, c)]) = snd (place_symbol (play m ms) s c)"
  by (induction m ms rule: play.induct) simp_all

section \<open>Properties of the rule strategies\<close>

text \<open>
  C3. The Classic and the Wild strategy evaluate the checks of \<open>place_symbol\<close> in strict
  order and stop at the first that holds: a game that is over gives \<open>GAME_OVER\<close> and no
  mutation; otherwise a symbol outside the allowed symbols gives \<open>INVALID_SYMBOL\<close>, also
  when the cell is out of bounds; otherwise a cell outside \<open>1..grid_size\<close> in either
  axis gives \<open>OUT_OF_BOUNDS\<close>; otherwise an occupied cell gives \<open>OCCUPIED\<close>; otherwise
  the symbol is placed at the cell and the result is \<open>VALID\<close>.
\<close>

theorem place_symbol_check_order:
  assumes "gt \<noteq> NotaktoGameType"
  shows "(is_over \<longrightarrow>
            GameType_place_symbol gt symbol cell is_over allowed f = Inr (GAME_OVER, f))
       \<and> (\<not> is_over \<and> symbol \<notin> set allowed \<longrightarrow>
            GameType_place_symbol gt symbol cell is_over allowed f = Inr (INVALID_SYMBOL, f))
       \<and> (\<not> is_over \<and> symbol \<in> set allowed
            \<and> (row cell \<notin> {1..grid_size f} \<or> column cell \<notin> {1..grid_size f}) \<longrightarrow>
            GameType_place_symbol gt symbol cell is_over allowed f = Inr (OUT_OF_BOUNDS, f))
       \<and> (\<not> is_over \<and> symbol \<in> set allowed
            \<and> row cell \<in> {1..grid_size f} \<and> column cell \<in> {1..grid_size f}
            \<and> occupied_cells f cell \<noteq> None \<longrightarrow>
            GameType_place_symbol gt symbol cell is_over allowed f = Inr (OCCUPIED, f))
       \<and> (\<not> is_over \<and> symbol \<in> set allowed
            \<and> row cell \<in> {1..grid_size f} \<and> column cell \<in> {1..grid_size f}
            \<and> occupied_cells f cell = None \<longrightarrow>
            GameType_place_symbol gt symbol cell is_over allowed f =
              Inr (VALID, f\<lparr>occupied_cells := (occupied_cells f)(cell \<mapsto> symbol)\<rparr>))"
  using assms
  by (cases gt)
     (auto simp: GameType_place_symbol_def TicTacToe_place_symbol_def Wild_place_symbol_def
        is_within_bounds_def get_symbol_at_def Field_place_symbol_def)

text \<open>
  The precedence at inputs where several checks hold at once: a finished game with a
  foreign symbol and a cell off the board, and a foreign symbol with a cell off the board;
  then a cell off the board alone, a legal placement, and an occupied cell.
\<close>

theorem place_symbol_check_order_witness:
  "TicTacToeGameType \<noteq> NotaktoGameType \<and> WildTicTacToeGameType \<noteq> NotaktoGameType
   \<and> GameType_place_symbol WildTicTacToeGameType ''Z'' (Cell 4 1) True [''X'', ''O''] (Field_init 3)
       = Inr (GAME_OVER, Field_init 3)
   \<and> GameType_place_symbol TicTacToeGameType ''Z'' (Cell 4 1) False [''X'', ''O''] (Field_init 3)
       = Inr (INVALID_SYMBOL, Field_init 3)
   \<and> GameType_place_symbol TicTacToeGameType ''X'' (Cell 4 1) False [''X'', ''O''] (Field_init 3)
       = Inr (OUT_OF_BOUNDS, Field_init 3)
   \<and> GameType_place_symbol TicTacToeGameType ''X'' (Cell 2 1) False [''X'', ''O''] (Field_init 3)
       = Inr (VALID, (Field_init 3)\<lparr>occupied_cells := (occupied_cells (Field_init 3))(Cell 2 1 \<mapsto> ''X'')\<rparr>)
   \<and> GameType_place_symbol WildTicTacToeGameType ''O'' (Cell 2 1) False [''X'', ''O'']
         (Field_place_symbol (Field_init 3) ''X'' (Cell 2 1))
       = Inr (OCCUPIED, Field_place_symbol (Field_init 3) ''X'' (Cell 2 1))"
  using
    place_symbol_check_order[of WildTicTacToeGameType True "''Z''" "Cell 4 1" "[''X'', ''O'']" "Field_init 3"]
    place_symbol_check_order[of TicTacToeGameType False "''Z''" "Cell 4 1" "[''X'', ''O'']" "Field_init 3"]
    place_symbol_check_order[of TicTacToeGameType False "''X''" "Cell 4 1" "[''X'', ''O'']" "Field_init 3"]
    place_symbol_check_order[of TicTacToeGameType False "''X''" "Cell 2 1" "[''X'', ''O'']" "Field_init 3"]
    place_symbol_check_order[of WildTicTacToeGameType False "''O''" "Cell 2 1" "[''X'', ''O'']"
      "Field_place_symbol (Field_init 3) ''X'' (Cell 2 1)"]
  by (simp add: Field_init_def Field_place_symbol_def)

text \<open>
  C7. \<open>winner\<close> visits every full row, then every full column, then the backslash
  diagonal and the forward-slash diagonal of the cells \<open>(k, grid_size - k + 1)\<close> for \<open>k\<close>
  in \<open>1..grid_size\<close>. At the first line in that order whose first cell is occupied and
  whose cells all hold an equal symbol it returns the player it was passed; a line whose
  first cell is free is skipped; without such a line it returns \<open>None\<close>. The board has
  grid size at least 1, as every board of the data model has.
\<close>

theorem winner_line_scan:
  assumes "1 \<le> grid_size f"
  shows "TicTacToe_winner f player symbol =
           Inr (case find (line_matched f)
                  (map (\<lambda>r. map (\<lambda>k. Cell r k) [1..grid_size f]) [1..grid_size f]
                   @ map (\<lambda>c. map (\<lambda>k. Cell k c) [1..grid_size f]) [1..grid_size f]
                   @ [map (\<lambda>k. Cell k k) [1..grid_size f],
                      map (\<lambda>k. Cell k (grid_size f - k + 1)) [1..grid_size f]])
                of None \<Rightarrow> None | Some _ \<Rightarrow> Some player)
       \<and> Wild_winner f player symbol = TicTacToe_winner f player symbol"
  using scan_all_lines[OF assms, of player]
  by (simp add: TicTacToe_winner_def Wild_winner_def all_lines_def row_groups_def
       col_groups_def diagonals_def valid_coords_def)

theorem winner_line_scan_witness:
  "1 \<le> grid_size (field classic_diagonal)
   \<and> find (line_matched (field classic_diagonal))
        (map (\<lambda>r. map (\<lambda>k. Cell r k) [1..grid_size (field classic_diagonal)])
           [1..grid_size (field classic_diagonal)]
         @ map (\<lambda>c. map (\<lambda>k. Cell k c) [1..grid_size (field classic_diagonal)])
             [1..grid_size (field classic_diagonal)]
         @ [map (\<lambda>k. Cell k k) [1..grid_size (field classic_diagonal)],
            map (\<lambda>k. Cell k (grid_size (field classic_diagonal) - k + 1))
              [1..grid_size (field classic_diagonal)]])
       = Some [Cell 1 3, Cell 2 2, Cell 3 1]
   \<and> TicTacToe_winner (field classic_diagonal) 1 ''X'' = Inr (Some 1)
   \<and> Wild_winner (field classic_diagonal) 1 ''X'' = Inr (Some 1)"
proof -
  have size: "1 \<le> grid_size (field classic_diagonal)"
    by code_simp
  have found: "find (line_matched (field classic_diagonal))
        (map (\<lambda>r. map (\<lambda>k. Cell r k) [1..grid_size (field classic_diagonal)])
           [1..grid_size (field classic_diagonal)]
         @ map (\<lambda>c. map (\<lambda>k. Cell k c) [1..grid_size (field classic_diagonal)])
             [1..grid_size (field classic_diagonal)]
         @ [map (\<lambda>k. Cell k k) [1..grid_size (field classic_diagonal)],
            map (\<lambda>k. Cell k (grid_size (field classic_diagonal) - k + 1))
              [1..grid_size (field classic_diagonal)]])
       = Some [Cell 1 3, Cell 2 2, Cell 3 1]"
    by code_simp
  from winner_line_scan[OF size, of 1 "''X''"] size found show ?thesis
    by simp
qed

text \<open>
  C2, as amended. \<open>winner\<close> does not consult the symbol it is passed: on a board of grid
  size at least 1, the Classic and the Wild strategy return the passed player exactly
  when some full row, column or diagonal has an occupied first cell and holds one equal
  symbol in all its cells, whichever symbol that is, and \<open>None\<close> otherwise; the result
  is the same for every passed symbol.
\<close>

theorem winner_any_symbol:
  assumes "1 \<le> grid_size f" and "gt \<noteq> NotaktoGameType"
  shows "GameType_winner gt f player symbol =
           Inr (if list_ex (line_matched f) (all_lines f) then Some player else None)
       \<and> GameType_winner gt f player symbol' = GameType_winner gt f player symbol"
proof -
  have "(case find P xs of None \<Rightarrow> None | Some _ \<Rightarrow> Some player)
      = (if list_ex P xs then Some player else None)" for P and xs :: "Cell list list"
    by (induction xs) auto
  then show ?thesis
    using scan_all_lines[OF assms(1), of player] assms(2)
    by (cases gt) (simp_all add: GameType_winner_def TicTacToe_winner_def Wild_winner_def)
qed

theorem winner_any_symbol_witness:
  "1 \<le> grid_size (field wild_row_of_O) \<and> WildTicTacToeGameType \<noteq> NotaktoGameType
   \<and> list_ex (line_matched (field wild_row_of_O)) (all_lines (field wild_row_of_O))
   \<and> GameType_winner WildTicTacToeGameType (field wild_row_of_O) 1 ''X'' = Inr (Some 1)
   \<and> GameType_winner WildTicTacToeGameType (field wild_row_of_O) 1 ''O''
       = GameType_winner WildTicTacToeGameType (field wild_row_of_O) 1 ''X''"
proof -
  have size: "1 \<le> grid_size (field wild_row_of_O)"
    by code_simp
  have line: "list_ex (line_matched (field wild_row_of_O)) (all_lines (field wild_row_of_O))"
    by code_simp
  from winner_any_symbol[OF size, of WildTicTacToeGameType 1 "''X''" "''O''"] size line
  show ?thesis by simp
qed

text \<open>
  C2, as stated, fails. In a Wild match player 1, whose own symbol is X, completes the
  first row with O: \<open>winner\<close>, called with player 1 and the symbol X, reports player 1,
  and no line of the board is filled with X.
\<close>

theorem winner_other_symbol_counterexample:
  "map_of (player_to_symbol wild_row_of_O) 1 = Some ''X''
   \<and> Wild_winner (field wild_row_of_O) 1 ''X'' = Inr (Some 1)
   \<and> TicTacToe_winner (field wild_row_of_O) 1 ''X'' = Inr (Some 1)
   \<and> \<not> list_ex (are_all_equal_to_basis (field wild_row_of_O) ''X'')
         (all_lines (field wild_row_of_O))"
proof -
  have "map_of (player_to_symbol wild_row_of_O) 1 = Some ''X''"
    by code_simp
  moreover have "Wild_winner (field wild_row_of_O) 1 ''X'' = Inr (Some 1)"
    by code_simp
  moreover have "TicTacToe_winner (field wild_row_of_O) 1 ''X'' = Inr (Some 1)"
    by code_simp
  moreover have "\<not> list_ex (are_all_equal_to_basis (field wild_row_of_O) ''X'')
         (all_lines (field wild_row_of_O))"
    by code_simp
  ultimately show ?thesis by simp
qed

text \<open>
  C10. Every operation of the Notakto strategy raises \<open>NotImplementedError\<close>, which is
  not the error of an invalid argument, and returns no feedback or other value.
\<close>

theorem notakto_not_supported:
  "GameType_place_symbol NotaktoGameType symbol cell is_over allowed f = Inl NotImplementedError
   \<and> GameType_winner NotaktoGameType f player symbol = Inl NotImplementedError
   \<and> GameType_get_symbol_choices NotaktoGameType player p2s = Inl NotImplementedError
   \<and> NotImplementedError \<noteq> ValueError"
  by (simp add: GameType_place_symbol_def GameType_winner_def GameType_get_symbol_choices_def
       Notakto_place_symbol_def Notakto_winner_def Notakto_get_symbol_choices_def)

section \<open>Properties of the orchestrator\<close>

text \<open>
  C8. Construction raises \<open>ValueError\<close> if the player count is at most 1, or the symbol
  sequence has duplicates, or its length differs from the player count; for every other
  input it succeeds, with player 1 to move.
\<close>

theorem init_argument_checks:
  "(count \<le> 1 \<or> \<not> distinct ps \<or> int (length ps) \<noteq> count \<longrightarrow>
      init g ps count gt = Inl ValueError)
   \<and> (\<not> (count \<le> 1 \<or> \<not> distinct ps \<or> int (length ps) \<noteq> count) \<longrightarrow>
      (\<exists>m. init g ps count gt = Inr m \<and> current_player m = 1))"
proof -
  have "length (remdups ps) = length ps \<longleftrightarrow> distinct ps"
    by (metis distinct_remdups length_remdups_eq remdups_id_iff_distinct)
  then show ?thesis
    by (auto simp: init_def)
qed

theorem init_argument_checks_witness:
  "init 3 [''X'', ''O''] 1 TicTacToeGameType = Inl ValueError
   \<and> init 3 [''X'', ''X''] 2 TicTacToeGameType = Inl ValueError
   \<and> init 3 [''X'', ''O'', ''Z''] 2 WildTicTacToeGameType = Inl ValueError
   \<and> (\<exists>m. init 3 [''X'', ''O''] 2 TicTacToeGameType = Inr m \<and> current_player m = 1)"
  using
    init_argument_checks[of 1 "[''X'', ''O'']" 3 TicTacToeGameType]
    init_argument_checks[of 2 "[''X'', ''X'']" 3 TicTacToeGameType]
    init_argument_checks[of 2 "[''X'', ''O'', ''Z'']" 3 WildTicTacToeGameType]
    init_argument_checks[of 2 "[''X'', ''O'']" 3 TicTacToeGameType]
  by simp

text \<open>
  C6. In every state of a match, that is after a successful construction and any
  sequence of \<open>place_symbol\<close> calls, the player to move lies in \<open>1..player_count\<close>, and
  \<open>next_player\<close> is the player to move plus 1, except at \<open>player_count\<close>, where it is 1.
\<close>

theorem current_player_in_range:
  assumes "init g ps count gt = Inr m0"
  shows "1 \<le> current_player (play m0 moves)
       \<and> current_player (play m0 moves) \<le> player_count (play m0 moves)
       \<and> next_player (play m0 moves) =
           (if current_player (play m0 moves) = player_count (play m0 moves) then 1
            else current_player (play m0 moves) + 1)"
  using play_inv[OF init_inv[OF assms], of moves]
  by (simp add: model_inv_def next_player_def)

theorem current_player_in_range_witness:
  "init 3 [''X'', ''O''] 2 TicTacToeGameType = Inr classic_start
   \<and> current_player (play classic_start [(''X'', Cell 1 1)]) = 2
   \<and> player_count (play classic_start [(''X'', Cell 1 1)]) = 2
   \<and> next_player (play classic_start [(''X'', Cell 1 1)]) = 1"
proof -
  have cur: "current_player (play classic_start [(''X'', Cell 1 1)]) = 2"
    by code_simp
  have cnt: "player_count (play classic_start [(''X'', Cell 1 1)]) = 2"
    by code_simp
  from current_player_in_range[OF init_classic_start, of "[(''X'', Cell 1 1)]"]
    init_classic_start cur cnt
  show ?thesis by simp
qed

text \<open>
  C9. On a match of the Classic or the Wild variant, \<open>get_symbol_choices\<close> raises
  \<open>ValueError\<close> exactly for a player outside \<open>1..player_count\<close>; for a player of the
  match the Classic variant returns the one-element sequence of that player's assigned
  symbol, and the Wild variant the sequence of the assigned symbols of all players.
\<close>

theorem get_symbol_choices_of_player:
  assumes "init g ps count gt = Inr m0" and "gt \<noteq> NotaktoGameType"
  shows "(\<not> (1 \<le> p \<and> p \<le> player_count (play m0 moves)) \<longrightarrow>
            get_symbol_choices (play m0 moves) p = Inl ValueError)
       \<and> (1 \<le> p \<and> p \<le> player_count (play m0 moves) \<longrightarrow>
            get_symbol_choices (play m0 moves) p =
              Inr (if gt = TicTacToeGameType then [ps ! nat (p - 1)] else ps))"
proof -
  let ?m = "play m0 moves"
  have inv: "model_inv ?m"
    using play_inv[OF init_inv[OF assms(1)]] .
  have fixed: "valid_symbols ?m = ps" "game_type ?m = gt"
    using play_fixed[of m0 moves] init_fields[OF assms(1)] by simp_all
  have p2s: "player_to_symbol ?m = enumerate_from 1 ps"
    and len: "int (length ps) = player_count ?m"
    using inv fixed by (simp_all add: model_inv_def)
  show ?thesis
    using assms(2) len
    by (cases gt)
       (auto simp: get_symbol_choices_def GameType_get_symbol_choices_def fixed p2s
          TicTacToe_get_symbol_choices_def Wild_get_symbol_choices_def
          map_of_enumerate_from map_snd_enumerate_from)
qed

theorem get_symbol_choices_of_player_witness:
  "init 3 [''X'', ''O''] 2 TicTacToeGameType = Inr classic_start
   \<and> init 3 [''X'', ''O''] 2 WildTicTacToeGameType = Inr wild_start
   \<and> TicTacToeGameType \<noteq> NotaktoGameType \<and> WildTicTacToeGameType \<noteq> NotaktoGameType
   \<and> get_symbol_choices (play classic_start [(''X'', Cell 1 1)]) 2 = Inr [''O'']
   \<and> get_symbol_choices (play wild_start []) 1 = Inr [''X'', ''O'']
   \<and> get_symbol_choices (play wild_start []) 3 = Inl ValueError"
proof -
  have cnt: "player_count (play classic_start [(''X'', Cell 1 1)]) = 2"
    "player_count (play wild_start []) = 2"
    by code_simp+
  from
    get_symbol_choices_of_player[OF init_classic_start, of 2 "[(''X'', Cell 1 1)]"]
    get_symbol_choices_of_player[OF init_wild_start, of 1 "[]"]
    get_symbol_choices_of_player[OF init_wild_start, of 3 "[]"]
    init_classic_start init_wild_start cnt
  show ?thesis by simp
qed

text \<open>
  C5. A \<open>place_symbol\<close> call of the orchestrator that returns a feedback other than
  \<open>VALID\<close> leaves the occupied cells of the board and the player to move as they were.
\<close>

theorem rejected_placement_changes_nothing:
  assumes "place_symbol m symbol cell = (Inr feedback, m')" and "feedback \<noteq> VALID"
  shows "model_occupied_cells m' = model_occupied_cells m
       \<and> current_player m' = current_player m"
  using assms
  by (auto simp: place_symbol_def Let_def split: sum.splits prod.splits if_splits
       dest: strategy_reject_keeps_field)

theorem rejected_placement_changes_nothing_witness:
  "place_symbol classic_start ''X'' (Cell 4 1)
     = (Inr OUT_OF_BOUNDS, snd (place_symbol classic_start ''X'' (Cell 4 1)))
   \<and> OUT_OF_BOUNDS \<noteq> VALID
   \<and> model_occupied_cells (snd (place_symbol classic_start ''X'' (Cell 4 1)))
       = model_occupied_cells classic_start
   \<and> current_player (snd (place_symbol classic_start ''X'' (Cell 4 1)))
       = current_player classic_start"
proof -
  have "fst (place_symbol classic_start ''X'' (Cell 4 1)) = Inr OUT_OF_BOUNDS"
    by code_simp
  then have call: "place_symbol classic_start ''X'' (Cell 4 1)
      = (Inr OUT_OF_BOUNDS, snd (place_symbol classic_start ''X'' (Cell 4 1)))"
    by (simp add: prod_eq_iff)
  from rejected_placement_changes_nothing[OF call] call show ?thesis
    by simp
qed

text \<open>
  C4. When a \<open>place_symbol\<close> call of the orchestrator in a match returns \<open>VALID\<close>, the
  game is over after the call exactly if there is a winner or the board has no free cell,
  and a winner is the player who just moved. If the game is not over, the player to move
  has become the \<open>next_player\<close> of the state before the call; if the placement ended the
  game, by a win or by filling the board, the player to move is still the player who just
  moved.
\<close>

theorem valid_placement_turn_advance:
  assumes "init g ps count gt = Inr m0"
    and "place_symbol (play m0 moves) s c = (Inr VALID, m')"
  shows "is_game_over m' =
           Inr (winner m' \<noteq> Inr None
                \<or> list_all
                     (\<lambda>r. list_all (\<lambda>k. occupied_cells (field m') (Cell r k) \<noteq> None)
                            [1..grid_size (field m')])
                     [1..grid_size (field m')])
       \<and> (winner m' = Inr None \<or> winner m' = Inr (Some (current_player (play m0 moves))))
       \<and> current_player m' =
           (if winner m' \<noteq> Inr None
               \<or> list_all
                    (\<lambda>r. list_all (\<lambda>k. occupied_cells (field m') (Cell r k) \<noteq> None)
                           [1..grid_size (field m')])
                    [1..grid_size (field m')]
            then current_player (play m0 moves)
            else next_player (play m0 moves))"
proof -
  let ?m = "play m0 moves"
  let ?full = "list_all
       (\<lambda>r. list_all (\<lambda>k. occupied_cells (field m') (Cell r k) \<noteq> None)
              [1..grid_size (field m')])
       [1..grid_size (field m')]"
  have inv: "model_inv ?m"
    using play_inv[OF init_inv[OF assms(1)]] .
  have "\<exists>b. is_game_over m' = Inr b
          \<and> current_player m' = (if b then current_player ?m else next_player ?m)"
    using valid_placement_cases[OF inv assms(2)]
    by (elim disjE) (rule exI[of _ False], simp, rule exI[of _ True], simp)
  then obtain b where
    over: "is_game_over m' = Inr b"
    and turn: "current_player m' = (if b then current_player ?m else next_player ?m)"
    by blast
  from is_game_over_value[OF over] have
    win: "winner m' = Inr None \<or> winner m' = Inr (Some (current_player m'))"
    and b: "b = (winner m' \<noteq> Inr None \<or> ?full)"
    by (simp_all add: has_unoccupied_cell_spelled)
  have "winner m' = Inr None \<or> winner m' = Inr (Some (current_player ?m))"
  proof (cases "winner m' = Inr None")
    case True
    then show ?thesis by simp
  next
    case False
    with b have "b" by simp
    with turn win False show ?thesis by simp
  qed
  with over turn b show ?thesis by simp
qed

text \<open>
  The three cases. In the match \<open>classic_diagonal\<close> the fourth move leaves the game open
  and hands the turn from player 2 to player 1, and the fifth move completes a diagonal,
  so that player 1 stays the player to move. In the match \<open>classic_draw\<close> the ninth move
  fills the board without a winner, and player 1, who made it, stays the player to move.
\<close>

theorem valid_placement_turn_advance_witness:
  "init 3 [''X'', ''O''] 2 TicTacToeGameType = Inr classic_start
   \<and> place_symbol
        (play classic_start [(''X'', Cell 2 2), (''O'', Cell 1 1), (''X'', Cell 1 3)])
        ''O'' (Cell 2 1)
       = (Inr VALID,
          play classic_start
            [(''X'', Cell 2 2), (''O'', Cell 1 1), (''X'', Cell 1 3), (''O'', Cell 2 1)])
   \<and> current_player
        (play classic_start [(''X'', Cell 2 2), (''O'', Cell 1 1), (''X'', Cell 1 3)]) = 2
   \<and> is_game_over
        (play classic_start
           [(''X'', Cell 2 2), (''O'', Cell 1 1), (''X'', Cell 1 3), (''O'', Cell 2 1)])
       = Inr False
   \<and> current_player
        (play classic_start
           [(''X'', Cell 2 2), (''O'', Cell 1 1), (''X'', Cell 1 3), (''O'', Cell 2 1)]) = 1
   \<and> place_symbol
        (play classic_start
           [(''X'', Cell 2 2), (''O'', Cell 1 1), (''X'', Cell 1 3), (''O'', Cell 2 1)])
        ''X'' (Cell 3 1)
       = (Inr VALID, classic_diagonal)
   \<and> winner classic_diagonal = Inr (Some 1)
   \<and> is_game_over classic_diagonal = Inr True
   \<and> current_player classic_diagonal = 1
   \<and> current_player (play classic_start classic_draw_moves) = 1
   \<and> place_symbol (play classic_start classic_draw_moves) ''X'' (Cell 3 3)
       = (Inr VALID, classic_draw)
   \<and> winner classic_draw = Inr None
   \<and> list_all
        (\<lambda>r. list_all (\<lambda>k. occupied_cells (field classic_draw) (Cell r k) \<noteq> None)
               [1..grid_size (field classic_draw)])
        [1..grid_size (field classic_draw)]
   \<and> is_game_over classic_draw = Inr True
   \<and> current_player classic_draw = 1"
proof -
  let ?three = "[(''X'', Cell 2 2), (''O'', Cell 1 1), (''X'', Cell 1 3)]"
  let ?four = "[(''X'', Cell 2 2), (''O'', Cell 1 1), (''X'', Cell 1 3), (''O'', Cell 2 1)]"
  have four: "play classic_start ?four
      = snd (place_symbol (play classic_start ?three) ''O'' (Cell 2 1))"
    using play_snoc[of classic_start ?three "''O''" "Cell 2 1"] by simp
  have five: "classic_diagonal
      = snd (place_symbol (play classic_start ?four) ''X'' (Cell 3 1))"
    using play_snoc[of classic_start ?four "''X''" "Cell 3 1"]
    by (simp add: classic_diagonal_def)
  have nine: "classic_draw
      = snd (place_symbol (play classic_start classic_draw_moves) ''X'' (Cell 3 3))"
    by (simp add: classic_draw_def play_snoc)
  have "fst (place_symbol (play classic_start ?three) ''O'' (Cell 2 1)) = Inr VALID"
    by code_simp
  with four have call4: "place_symbol (play classic_start ?three) ''O'' (Cell 2 1)
      = (Inr VALID, play classic_start ?four)"
    by (simp add: prod_eq_iff)
  have "fst (place_symbol (play classic_start ?four) ''X'' (Cell 3 1)) = Inr VALID"
    by code_simp
  with five have call5: "place_symbol (play classic_start ?four) ''X'' (Cell 3 1)
      = (Inr VALID, classic_diagonal)"
    by (simp add: prod_eq_iff)
  have "fst (place_symbol (play classic_start classic_draw_moves) ''X'' (Cell 3 3)) = Inr VALID"
    by code_simp
  with nine have call9: "place_symbol (play classic_start classic_draw_moves) ''X'' (Cell 3 3)
      = (Inr VALID, classic_draw)"
    by (simp add: prod_eq_iff)
  have cur3: "current_player (play classic_start ?three) = 2"
    by code_simp
  have next3: "next_player (play classic_start ?three) = 1"
    by code_simp
  have cur4: "current_player (play classic_start ?four) = 1"
    by code_simp
  have cur8: "current_player (play classic_start classic_draw_moves) = 1"
    by code_simp
  have win4: "winner (play classic_start ?four) = Inr None"
    by code_simp
  have free4: "\<not> list_all
        (\<lambda>r. list_all
               (\<lambda>k. occupied_cells (field (play classic_start ?four)) (Cell r k) \<noteq> None)
               [1..grid_size (field (play classic_start ?four))])
        [1..grid_size (field (play classic_start ?four))]"
    by code_simp
  have win5: "winner classic_diagonal = Inr (Some 1)"
    by code_simp
  have win9: "winner classic_draw = Inr None"
    by code_simp
  have full9: "list_all
        (\<lambda>r. list_all (\<lambda>k. occupied_cells (field classic_draw) (Cell r k) \<noteq> None)
               [1..grid_size (field classic_draw)])
        [1..grid_size (field classic_draw)]"
    by code_simp
  from valid_placement_turn_advance[OF init_classic_start call4]
  have r4: "is_game_over (play classic_start ?four) = Inr False"
    "current_player (play classic_start ?four) = 1"
    using win4 free4 next3 by simp_all
  from valid_placement_turn_advance[OF init_classic_start call5]
  have r5: "is_game_over classic_diagonal = Inr True" "current_player classic_diagonal = 1"
    using win5 cur4 by simp_all
  from valid_placement_turn_advance[OF init_classic_start call9]
  have r9: "is_game_over classic_draw = Inr True" "current_player classic_draw = 1"
    using win9 full9 cur8 by simp_all
  from init_classic_start call4 call5 call9 cur3 cur8 win5 win9 full9 r4 r5 r9
  show ?thesis by simp
qed

text \<open>
  C1 does not hold of the code. The orchestrator passes the symbols of all players to
  the strategy as the allowed symbols, not the choices of the player to move. At the
  start of a Classic match of X and O, player 1 is to move and may choose X only, yet
  placing O at the free cell (1, 1) returns \<open>VALID\<close> and puts O on the board.
\<close>

theorem classic_accepts_other_players_symbol:
  "init 3 [''X'', ''O''] 2 TicTacToeGameType = Inr classic_start
   \<and> current_player classic_start = 1
   \<and> is_game_over classic_start = Inr False
   \<and> get_symbol_choices classic_start 1 = Inr [''X'']
   \<and> model_occupied_cells classic_start (Cell 1 1) = None
   \<and> fst (place_symbol classic_start ''O'' (Cell 1 1)) = Inr VALID
   \<and> model_occupied_cells (snd (place_symbol classic_start ''O'' (Cell 1 1))) (Cell 1 1)
       = Some ''O''"
proof -
  have "current_player classic_start = 1"
    by code_simp
  moreover have "is_game_over classic_start = Inr False"
    by code_simp
  moreover have "get_symbol_choices classic_start 1 = Inr [''X'']"
    by code_simp
  moreover have "model_occupied_cells classic_start (Cell 1 1) = None"
    by code_simp
  moreover have "fst (place_symbol classic_start ''O'' (Cell 1 1)) = Inr VALID"
    by code_simp
  moreover have
    "model_occupied_cells (snd (place_symbol classic_start ''O'' (Cell 1 1))) (Cell 1 1)
       = Some ''O''"
    by code_simp
  ultimately show ?thesis
    using init_classic_start by simp
qed

end
